theory Spec2Isabelle
  imports Main
begin

section \<open>Errors\<close>

text \<open>
  Errors of the operating system and of the SSH and SFTP libraries are opaque to the
  program: it only tests them against nil, against \<open>io.EOF\<close> or with
  \<open>os.IsNotExist\<close>, and wraps them.
\<close>

datatype lib_error = NotExist | EOF | OtherError string

text \<open>
  Every error the program builds itself. The messages of the source are fixed texts;
  each is one constructor, with the values the message is formatted with as arguments.
  \<open>Wrap t e\<close> is \<open>fmt.Errorf("<text of t>: %w", e)\<close>.
\<close>

datatype wrap_text =
    ConfigValidationFailed | AuthSetupFailed | DialFailed
  | ReadKeyFailed | ParseKeyFailed
  | NewSessionFailed | RunCommandFailed
  | NewSftpClientFailed | ReadInputFailed
  | ReadDirFailed | GetwdFailed | StatFailed | MkdirFailed | RemoveFailed

datatype error =
    Lib lib_error
  | HostEmpty | UsernameEmpty | PortOutOfRange | NoPasswordOrKey
  | KeyFileNotExist string
  | Wrap wrap_text error
  | UnknownCommand string
  | CdNeedsDirectory
  | PutNeedsFile | PutNeedsFullClient
  | GetNeedsFile | GetNeedsFullClient
  | MkdirNeedsName | RmNeedsName

section \<open>Package config\<close>

record SSHConfig =
  Host :: string
  Port :: int
  Username :: string
  Password :: string
  KeyFile :: string

text \<open>\<open>os.IsNotExist\<close>: false on a nil error.\<close>

definition IsNotExist :: "lib_error option \<Rightarrow> bool" where
  "IsNotExist err = (err = Some NotExist)"

text \<open>
  \<open>Validate\<close> has a pointer receiver: the model returns the configuration as it is
  after the call, next to the error. The file system is the function \<open>stat\<close>,
  the error of \<open>os.Stat\<close> on a path (the file information is discarded).
\<close>

definition Validate :: "(string \<Rightarrow> lib_error option) \<Rightarrow> SSHConfig \<Rightarrow> SSHConfig \<times> error option" where
  "Validate stat c =
     (if Host c = [] then (c, Some HostEmpty)
      else if Username c = [] then (c, Some UsernameEmpty)
      else if Port c \<le> 0 \<or> Port c > 65535 then (c, Some PortOutOfRange)
      else if Password c = [] \<and> KeyFile c = [] then (c, Some NoPasswordOrKey)
      else if KeyFile c \<noteq> [] \<and> IsNotExist (stat (KeyFile c))
        then (c, Some (KeyFileNotExist (KeyFile c)))
      else (c, None))"

text \<open>
  The checks of the specification, in its order, each with the error it reports: the
  error of a configuration is that of the first check that holds.
\<close>

definition spec_checks :: "(string \<Rightarrow> lib_error option) \<Rightarrow> SSHConfig \<Rightarrow> (bool \<times> error) list" where
  "spec_checks stat c =
     [(Host c = [], HostEmpty),
      (Username c = [], UsernameEmpty),
      (Port c \<le> 0 \<or> Port c > 65535, PortOutOfRange),
      (Password c = [] \<and> KeyFile c = [], NoPasswordOrKey),
      (KeyFile c \<noteq> [] \<and> stat (KeyFile c) = Some NotExist, KeyFileNotExist (KeyFile c))]"

definition spec_Validate :: "(string \<Rightarrow> lib_error option) \<Rightarrow> SSHConfig \<Rightarrow> error option" where
  "spec_Validate stat c = map_option snd (find fst (spec_checks stat c))"

definition HasKeyAuth :: "SSHConfig \<Rightarrow> bool" where
  "HasKeyAuth c = (KeyFile c \<noteq> [])"

definition HasPasswordAuth :: "SSHConfig \<Rightarrow> bool" where
  "HasPasswordAuth c = (Password c \<noteq> [])"

text \<open>The decimal digits of \<open>%d\<close>.\<close>

fun digits :: "nat \<Rightarrow> string" where
  "digits n = (if n < 10 then [''0123456789'' ! n] else digits (n div 10) @ [''0123456789'' ! (n mod 10)])"

definition decimal :: "int \<Rightarrow> string" where
  "decimal i = (if i < 0 then CHR ''-'' # digits (nat (- i)) else digits (nat i))"

definition GetAddress :: "SSHConfig \<Rightarrow> string" where
  "GetAddress c = Host c @ '':'' @ decimal (Port c)"

section \<open>Package sshclient\<close>

text \<open>
  The part of \<open>ssh.ClientConfig\<close> that the program sets. The time-out is in seconds.
\<close>

datatype signer = Signer string

datatype auth_method = PasswordAuth string | PublicKeysAuth signer

datatype host_key_callback = InsecureIgnoreHostKey

record ClientConfig =
  User :: string
  Auth :: "auth_method list"
  HostKeyCallback :: host_key_callback
  Timeout :: nat

type_synonym conn = nat

text \<open>
  The operating system and the SSH library, as far as connecting uses them: the error of
  \<open>os.Stat\<close>, the result of \<open>ioutil.ReadFile\<close>, of \<open>ssh.ParsePrivateKey\<close> on the
  bytes read, and of \<open>ssh.Dial\<close> on an address and a client configuration.
\<close>

record env =
  os_Stat :: "string \<Rightarrow> lib_error option"
  ReadFile :: "string \<Rightarrow> lib_error + string"
  ParsePrivateKey :: "string \<Rightarrow> lib_error + signer"
  Dial :: "string \<Rightarrow> ClientConfig \<Rightarrow> lib_error + conn"

text \<open>The calls made to set up authentication and to connect, in the order made.\<close>

datatype host_call =
    CallReadFile string
  | CallParsePrivateKey string
  | CallDial string ClientConfig
  | CallConnClose conn

record Client =
  config :: SSHConfig
  conn :: "conn option"

text \<open>
  \<open>addAuthMethods\<close> writes through the pointer \<open>sshConfig\<close>: the model returns the client
  configuration as it is after the call, the error, and the calls made. The local slice
  \<open>authMethods\<close> is stored in \<open>sshConfig.Auth\<close> by the last statement only.
\<close>

definition addAuthMethods ::
  "env \<Rightarrow> ClientConfig \<Rightarrow> SSHConfig \<Rightarrow> (ClientConfig \<times> error option) \<times> host_call list" where
  "addAuthMethods e sshConfig cfg =
     (let authMethods = (if HasPasswordAuth cfg then [PasswordAuth (Password cfg)] else [])
      in if HasKeyAuth cfg then
           (case ReadFile e (KeyFile cfg) of
              Inl err \<Rightarrow>
                ((sshConfig, Some (Wrap ReadKeyFailed (Lib err))), [CallReadFile (KeyFile cfg)])
            | Inr keyData \<Rightarrow>
                (case ParsePrivateKey e keyData of
                   Inl err \<Rightarrow>
                     ((sshConfig, Some (Wrap ParseKeyFailed (Lib err))),
                      [CallReadFile (KeyFile cfg), CallParsePrivateKey keyData])
                 | Inr sg \<Rightarrow>
                     ((sshConfig\<lparr>Auth := authMethods @ [PublicKeysAuth sg]\<rparr>, None),
                      [CallReadFile (KeyFile cfg), CallParsePrivateKey keyData])))
         else ((sshConfig\<lparr>Auth := authMethods\<rparr>, None), []))"

definition NewClient :: "env \<Rightarrow> SSHConfig \<Rightarrow> (Client option \<times> error option) \<times> host_call list" where
  "NewClient e cfg =
     (case snd (Validate (os_Stat e) cfg) of
        Some err \<Rightarrow> ((None, Some (Wrap ConfigValidationFailed err)), [])
      | None \<Rightarrow>
          (let sshConfig = \<lparr>User = Username cfg, Auth = [],
                            HostKeyCallback = InsecureIgnoreHostKey, Timeout = 30\<rparr>
           in case addAuthMethods e sshConfig cfg of
                ((_, Some err), t) \<Rightarrow> ((None, Some (Wrap AuthSetupFailed err)), t)
              | ((sshConfig', None), t) \<Rightarrow>
                  (case Dial e (GetAddress cfg) sshConfig' of
                     Inl err \<Rightarrow>
                       ((None, Some (Wrap DialFailed (Lib err))),
                        t @ [CallDial (GetAddress cfg) sshConfig'])
                   | Inr k \<Rightarrow>
                       ((Some \<lparr>config = cfg, conn = Some k\<rparr>, None),
                        t @ [CallDial (GetAddress cfg) sshConfig']))))"

definition GetConnection :: "Client \<Rightarrow> conn option" where
  "GetConnection c = conn c"

definition GetConfig :: "Client \<Rightarrow> SSHConfig" where
  "GetConfig c = config c"

text \<open>
  \<open>Close\<close>, given the result of the connection's own \<open>Close\<close>. The connection is
  dereferenced in the first branch only.
\<close>

definition Close :: "(conn \<Rightarrow> lib_error option) \<Rightarrow> Client \<Rightarrow> error option \<times> host_call list" where
  "Close conn_Close c =
     (case conn c of
        Some k \<Rightarrow> (map_option Lib (conn_Close k), [CallConnClose k])
      | None \<Rightarrow> (None, []))"

section \<open>Strings\<close>

text \<open>
  A Go string is a sequence of bytes, read as UTF-8 where characters matter.
  \<open>White_Space\<close> lists the UTF-8 encodings of the characters that \<open>unicode.IsSpace\<close>
  accepts: U+0009 to U+000D, U+0020, U+0085, U+00A0, U+1680, U+2000 to U+200A, U+2028,
  U+2029, U+202F, U+205F and U+3000. No encoding is a prefix of another.
\<close>

definition White_Space :: "string list" where
  "White_Space =
     [[CHR 0x09], [CHR 0x0A], [CHR 0x0B], [CHR 0x0C], [CHR 0x0D], [CHR 0x20],
      [CHR 0xC2, CHR 0x85], [CHR 0xC2, CHR 0xA0],
      [CHR 0xE1, CHR 0x9A, CHR 0x80],
      [CHR 0xE2, CHR 0x80, CHR 0x80], [CHR 0xE2, CHR 0x80, CHR 0x81],
      [CHR 0xE2, CHR 0x80, CHR 0x82], [CHR 0xE2, CHR 0x80, CHR 0x83],
      [CHR 0xE2, CHR 0x80, CHR 0x84], [CHR 0xE2, CHR 0x80, CHR 0x85],
      [CHR 0xE2, CHR 0x80, CHR 0x86], [CHR 0xE2, CHR 0x80, CHR 0x87],
      [CHR 0xE2, CHR 0x80, CHR 0x88], [CHR 0xE2, CHR 0x80, CHR 0x89],
      [CHR 0xE2, CHR 0x80, CHR 0x8A],
      [CHR 0xE2, CHR 0x80, CHR 0xA8], [CHR 0xE2, CHR 0x80, CHR 0xA9],
      [CHR 0xE2, CHR 0x80, CHR 0xAF],
      [CHR 0xE2, CHR 0x81, CHR 0x9F],
      [CHR 0xE3, CHR 0x80, CHR 0x80]]"

text \<open>
  The number of bytes of the white-space character that a string starts with; 0 when it
  starts with none.
\<close>

definition space_width :: "string \<Rightarrow> nat" where
  "space_width s =
     (case find (\<lambda>sp. take (length sp) s = sp) White_Space of
        Some sp \<Rightarrow> length sp
      | None \<Rightarrow> 0)"

text \<open>
  For each byte of a string, whether it belongs to a white-space character. \<open>k\<close> counts
  the bytes of the current white-space character that are still to come. A white-space
  character starts with a byte that continues no character, so reading byte by byte
  finds the same white space as decoding character by character.
\<close>

fun space_mask :: "nat \<Rightarrow> string \<Rightarrow> bool list" where
  "space_mask k [] = []"
| "space_mask k (c # cs) =
     (let k' = (if 0 < k then k else space_width (c # cs))
      in (0 < k') # space_mask (k' - 1) cs)"

declare space_mask.simps(2) [simp del]

text \<open>\<open>strings.TrimSpace\<close>: the string without its leading and trailing white space.\<close>

definition TrimSpace :: "string \<Rightarrow> string" where
  "TrimSpace s =
     map snd (rev (dropWhile fst (rev (dropWhile fst (zip (space_mask 0 s) s)))))"

text \<open>
  \<open>strings.Fields\<close>: the maximal runs of bytes outside white space, in order.
  \<open>cur\<close> is the field being read, reversed.
\<close>

fun fields_scan :: "string \<Rightarrow> (bool \<times> char) list \<Rightarrow> string list" where
  "fields_scan cur [] = (if cur = [] then [] else [rev cur])"
| "fields_scan cur ((sp, c) # rest) =
     (if sp then (if cur = [] then [] else [rev cur]) @ fields_scan [] rest
      else fields_scan (c # cur) rest)"

definition Fields :: "string \<Rightarrow> string list" where
  "Fields s = fields_scan [] (zip (space_mask 0 s) s)"

text \<open>A string that consists of white-space characters only.\<close>

inductive blank :: "string \<Rightarrow> bool" where
  blank_Nil: "blank []"
| blank_App: "sp \<in> set White_Space \<Longrightarrow> blank s \<Longrightarrow> blank (sp @ s)"

text \<open>\<open>filepath.Base\<close> with the separator \<open>/\<close>: the last element of a path.\<close>

definition Base :: "string \<Rightarrow> string" where
  "Base path =
     (if path = [] then ''.''
      else (let stripped = rev (dropWhile (\<lambda>c. c = CHR ''/'') (rev path));
                last_elem = rev (takeWhile (\<lambda>c. c \<noteq> CHR ''/'') (rev stripped))
            in if last_elem = [] then ''/'' else last_elem))"

section \<open>The SSH and SFTP libraries\<close>

text \<open>
  The remote side is a state of type \<open>'r\<close>. Every method of the libraries that the
  program calls is a function from the state to its result and the next state: of a
  connection, \<open>NewSession\<close>; of a session, \<open>CombinedOutput\<close> (output and error) and
  \<open>Close\<close>; \<open>sftp.NewClient\<close>; of an SFTP client, \<open>Close\<close>, \<open>ReadDir\<close>,
  \<open>Getwd\<close>, \<open>Stat\<close> (its error only: the program discards the file information),
  \<open>Mkdir\<close> and \<open>Remove\<close>.
\<close>

record FileInfo =
  Name :: string
  Size :: int
  IsDir :: bool

record 'r library =
  NewSession :: "'r \<Rightarrow> conn \<Rightarrow> lib_error option \<times> 'r"
  CombinedOutput :: "'r \<Rightarrow> string \<Rightarrow> (string \<times> lib_error option) \<times> 'r"
  session_Close :: "'r \<Rightarrow> unit \<times> 'r"
  sftp_NewClient :: "'r \<Rightarrow> conn \<Rightarrow> lib_error option \<times> 'r"
  sftp_Close :: "'r \<Rightarrow> unit \<times> 'r"
  ReadDir :: "'r \<Rightarrow> string \<Rightarrow> (lib_error + FileInfo list) \<times> 'r"
  Getwd :: "'r \<Rightarrow> (lib_error + string) \<times> 'r"
  Stat :: "'r \<Rightarrow> string \<Rightarrow> lib_error option \<times> 'r"
  Mkdir :: "'r \<Rightarrow> string \<Rightarrow> lib_error option \<times> 'r"
  Remove :: "'r \<Rightarrow> string \<Rightarrow> lib_error option \<times> 'r"

datatype call =
    CallNewSession conn
  | CallCombinedOutput string
  | CallSessionClose
  | CallSftpNewClient conn
  | CallSftpClose
  | CallReadDir string
  | CallGetwd
  | CallStat string
  | CallMkdir string
  | CallRemove string

text \<open>
  What the program emits, one constructor for each fixed text, with the values it is
  formatted with.
\<close>

datatype printed =
    SftpBanner | ShellBanner
  | ConnectedTo string string
  | CurrentDir string
  | Rule
  | SftpPrompt | ShellPrompt
  | Goodbye | GoodbyeAfterNewline
  | HelpText
  | DirHeader string
  | DirEntry string int string
  | Line string
  | CdNotSupported
  | DirAccessible string
  | Uploading string string
  | Downloading string string
  | DirCreated string
  | FileRemoved string
  | ErrorLine error
  | CommandFailed error
  | Text string

text \<open>
  The state of a session: the remote side, the library calls made and the texts printed,
  both oldest first.
\<close>

record 'r world =
  remote :: 'r
  calls :: "call list"
  out :: "printed list"

definition emit :: "printed \<Rightarrow> 'r world \<Rightarrow> 'r world" where
  "emit x w = w\<lparr>out := out w @ [x]\<rparr>"

definition emits :: "printed list \<Rightarrow> 'r world \<Rightarrow> 'r world" where
  "emits xs w = w\<lparr>out := out w @ xs\<rparr>"

text \<open>One library call: it is recorded, and the remote side moves to its next state.\<close>

definition lib_call :: "call \<Rightarrow> ('r \<Rightarrow> 'a \<times> 'r) \<Rightarrow> 'r world \<Rightarrow> 'a \<times> 'r world" where
  "lib_call c f w =
     (case f (remote w) of (x, r) \<Rightarrow> (x, w\<lparr>remote := r, calls := calls w @ [c]\<rparr>))"

section \<open>Package sshclient: running a command\<close>

text \<open>
  \<open>ExecuteCommand\<close> dereferences the connection: on a client without one it does not
  return (\<open>None\<close>). The deferred \<open>session.Close\<close> runs on both returns after the session
  exists.
\<close>

definition ExecuteCommand ::
  "'r library \<Rightarrow> Client \<Rightarrow> string \<Rightarrow> 'r world \<Rightarrow> ((string \<times> error option) \<times> 'r world) option" where
  "ExecuteCommand L c command w =
     (case conn c of
        None \<Rightarrow> None
      | Some k \<Rightarrow>
          (case lib_call (CallNewSession k) (\<lambda>r. NewSession L r k) w of
             (Some err, w1) \<Rightarrow> Some (([], Some (Wrap NewSessionFailed (Lib err))), w1)
           | (None, w1) \<Rightarrow>
               (case lib_call (CallCombinedOutput command) (\<lambda>r. CombinedOutput L r command) w1 of
                  ((output, Some err), w2) \<Rightarrow>
                    Some (([], Some (Wrap RunCommandFailed (Lib err))),
                          snd (lib_call CallSessionClose (session_Close L) w2))
                | ((output, None), w2) \<Rightarrow>
                    Some ((output, None), snd (lib_call CallSessionClose (session_Close L) w2)))))"

section \<open>Package ui: the SFTP commands\<close>

definition showSFTPHelp :: "'r world \<Rightarrow> 'r world" where
  "showSFTPHelp w = emit HelpText w"

definition listRemoteDirectory :: "'r library \<Rightarrow> string list \<Rightarrow> 'r world \<Rightarrow> error option \<times> 'r world" where
  "listRemoteDirectory client args w =
     (let dir = (case args of [] \<Rightarrow> ''.'' | a # _ \<Rightarrow> a)
      in case lib_call (CallReadDir dir) (\<lambda>r. ReadDir client r dir) w of
           (Inl err, w1) \<Rightarrow> (Some (Wrap ReadDirFailed (Lib err)), w1)
         | (Inr files, w1) \<Rightarrow>
             (None,
              emits (DirHeader dir #
                      map (\<lambda>file. DirEntry (if IsDir file then ''d'' else ''-'') (Size file) (Name file))
                        files) w1))"

definition showRemotePwd :: "'r library \<Rightarrow> 'r world \<Rightarrow> error option \<times> 'r world" where
  "showRemotePwd client w =
     (case lib_call CallGetwd (Getwd client) w of
        (Inl err, w1) \<Rightarrow> (Some (Wrap GetwdFailed (Lib err)), w1)
      | (Inr pwd, w1) \<Rightarrow> (None, emit (Line pwd) w1))"

definition changeRemoteDirectory :: "'r library \<Rightarrow> string list \<Rightarrow> 'r world \<Rightarrow> error option \<times> 'r world" where
  "changeRemoteDirectory client args w =
     (case args of
        [] \<Rightarrow> (Some CdNeedsDirectory, w)
      | a # _ \<Rightarrow>
          (case lib_call (CallStat a) (\<lambda>r. Stat client r a) w of
             (Some err, w1) \<Rightarrow> (Some (Wrap StatFailed (Lib err)), w1)
           | (None, w1) \<Rightarrow> (None, emits [CdNotSupported, DirAccessible a] w1)))"

definition uploadFileCommand :: "'r library \<Rightarrow> string list \<Rightarrow> 'r world \<Rightarrow> error option \<times> 'r world" where
  "uploadFileCommand client args w =
     (case args of
        [] \<Rightarrow> (Some PutNeedsFile, w)
      | localPath # others \<Rightarrow>
          (let remotePath = (case others of [] \<Rightarrow> Base localPath | b # _ \<Rightarrow> b)
           in (Some PutNeedsFullClient, emit (Uploading localPath remotePath) w)))"

definition downloadFileCommand :: "'r library \<Rightarrow> string list \<Rightarrow> 'r world \<Rightarrow> error option \<times> 'r world" where
  "downloadFileCommand client args w =
     (case args of
        [] \<Rightarrow> (Some GetNeedsFile, w)
      | remotePath # others \<Rightarrow>
          (let localPath = (case others of [] \<Rightarrow> Base remotePath | b # _ \<Rightarrow> b)
           in (Some GetNeedsFullClient, emit (Downloading remotePath localPath) w)))"

definition createRemoteDirectory :: "'r library \<Rightarrow> string list \<Rightarrow> 'r world \<Rightarrow> error option \<times> 'r world" where
  "createRemoteDirectory client args w =
     (case args of
        [] \<Rightarrow> (Some MkdirNeedsName, w)
      | a # _ \<Rightarrow>
          (case lib_call (CallMkdir a) (\<lambda>r. Mkdir client r a) w of
             (Some err, w1) \<Rightarrow> (Some (Wrap MkdirFailed (Lib err)), w1)
           | (None, w1) \<Rightarrow> (None, emit (DirCreated a) w1)))"

definition removeRemoteFile :: "'r library \<Rightarrow> string list \<Rightarrow> 'r world \<Rightarrow> error option \<times> 'r world" where
  "removeRemoteFile client args w =
     (case args of
        [] \<Rightarrow> (Some RmNeedsName, w)
      | a # _ \<Rightarrow>
          (case lib_call (CallRemove a) (\<lambda>r. Remove client r a) w of
             (Some err, w1) \<Rightarrow> (Some (Wrap RemoveFailed (Lib err)), w1)
           | (None, w1) \<Rightarrow> (None, emit (FileRemoved a) w1)))"

definition executeSFTPCommand ::
  "'r library \<Rightarrow> string \<Rightarrow> string list \<Rightarrow> 'r world \<Rightarrow> error option \<times> 'r world" where
  "executeSFTPCommand client command args w =
     (if command = ''help'' then (None, showSFTPHelp w)
      else if command = ''ls'' \<or> command = ''dir'' then listRemoteDirectory client args w
      else if command = ''pwd'' then showRemotePwd client w
      else if command = ''cd'' then changeRemoteDirectory client args w
      else if command = ''get'' then downloadFileCommand client args w
      else if command = ''put'' then uploadFileCommand client args w
      else if command = ''mkdir'' then createRemoteDirectory client args w
      else if command = ''rm'' then removeRemoteFile client args w
      else if command = ''exit'' \<or> command = ''quit'' then (None, emit Goodbye w)
      else (Some (UnknownCommand command), w))"

text \<open>
  The commands of the specification and the operation of each: the table that the
  dispatcher is compared with.
\<close>

definition spec_commands ::
  "'r library \<Rightarrow> (string \<times> (string list \<Rightarrow> 'r world \<Rightarrow> error option \<times> 'r world)) list" where
  "spec_commands client =
     [(''ls'', listRemoteDirectory client),
      (''cd'', changeRemoteDirectory client),
      (''get'', downloadFileCommand client),
      (''put'', uploadFileCommand client),
      (''mkdir'', createRemoteDirectory client),
      (''rm'', removeRemoteFile client),
      (''pwd'', \<lambda>args. showRemotePwd client),
      (''help'', \<lambda>args w. (None, showSFTPHelp w)),
      (''exit'', \<lambda>args w. (None, emit Goodbye w))]"

text \<open>The two names that the dispatcher accepts besides those of the specification.\<close>

definition alias_commands ::
  "'r library \<Rightarrow> (string \<times> (string list \<Rightarrow> 'r world \<Rightarrow> error option \<times> 'r world)) list" where
  "alias_commands client =
     [(''dir'', listRemoteDirectory client),
      (''quit'', \<lambda>args w. (None, emit Goodbye w))]"

section \<open>Package ui: the two loops\<close>

text \<open>
  Standard input is the sequence of the results of \<open>reader.ReadString\<close>: the \<open>n\<close>-th
  call returns the string \<open>fst (stdin n)\<close> and the error \<open>snd (stdin n)\<close>.
\<close>

type_synonym stdin = "nat \<Rightarrow> string \<times> lib_error option"

datatype control = Continue | Break | Return "error option"

text \<open>One iteration of the loop of \<open>StartSFTPSession\<close>, on the result of its read.\<close>

definition sftp_iteration ::
  "'r library \<Rightarrow> string \<times> lib_error option \<Rightarrow> 'r world \<Rightarrow> control \<times> 'r world" where
  "sftp_iteration sftpClient rd w0 =
     (let w = emit SftpPrompt w0
      in case rd of
           (input, Some err) \<Rightarrow>
             if err = EOF then (Break, emit GoodbyeAfterNewline w)
             else (Return (Some (Wrap ReadInputFailed (Lib err))), w)
         | (input, None) \<Rightarrow>
             (case Fields (TrimSpace input) of
                [] \<Rightarrow> (Continue, w)
              | command # args \<Rightarrow>
                  (case executeSFTPCommand sftpClient command args w of
                     (err, w1) \<Rightarrow>
                       (let w2 = (case err of Some e \<Rightarrow> emit (ErrorLine e) w1 | None \<Rightarrow> w1)
                        in if command = ''exit'' \<or> command = ''quit'' then (Break, w2)
                           else (Continue, w2)))))"

partial_function (option) sftp_loop ::
  "'r library \<Rightarrow> stdin \<Rightarrow> nat \<Rightarrow> 'r world \<Rightarrow> (error option \<times> 'r world) option" where
  "sftp_loop sftpClient stdin n w =
     (case sftp_iteration sftpClient (stdin n) w of
        (Continue, w') \<Rightarrow> sftp_loop sftpClient stdin (Suc n) w'
      | (Break, w') \<Rightarrow> Some (None, w')
      | (Return err, w') \<Rightarrow> Some (err, w'))"

text \<open>
  \<open>StartSFTPSession\<close>. \<open>sftp.NewClient\<close> dereferences the connection: on a client
  without one the call does not return. The deferred \<open>sftpClient.Close\<close> runs on every
  return after the SFTP client exists.
\<close>

definition StartSFTPSession ::
  "'r library \<Rightarrow> stdin \<Rightarrow> Client \<Rightarrow> 'r world \<Rightarrow> (error option \<times> 'r world) option" where
  "StartSFTPSession L stdin client w =
     (case GetConnection client of
        None \<Rightarrow> None
      | Some k \<Rightarrow>
          (case lib_call (CallSftpNewClient k) (\<lambda>r. sftp_NewClient L r k) w of
             (Some err, w1) \<Rightarrow> Some (Some (Wrap NewSftpClientFailed (Lib err)), w1)
           | (None, w1) \<Rightarrow>
               (case lib_call CallGetwd (Getwd L) w1 of
                  (got, w2) \<Rightarrow>
                    (let pwd = (case got of Inl err \<Rightarrow> ''/'' | Inr dir \<Rightarrow> dir);
                         w3 = emits [SftpBanner,
                                      ConnectedTo (Username (GetConfig client)) (Host (GetConfig client)),
                                      CurrentDir pwd, Rule] w2
                     in map_option
                          (\<lambda>(err, w'). (err, snd (lib_call CallSftpClose (sftp_Close L) w')))
                          (sftp_loop L stdin 0 w3)))))"

text \<open>One iteration of the loop of \<open>ExecuteInteractiveCommand\<close>, on the result of its read.\<close>

definition shell_iteration ::
  "'r library \<Rightarrow> Client \<Rightarrow> string \<times> lib_error option \<Rightarrow> 'r world \<Rightarrow> (control \<times> 'r world) option" where
  "shell_iteration L client rd w0 =
     (let w = emit ShellPrompt w0
      in case rd of
           (input, Some err) \<Rightarrow>
             if err = EOF then Some (Break, emit GoodbyeAfterNewline w)
             else Some (Return (Some (Wrap ReadInputFailed (Lib err))), w)
         | (input, None) \<Rightarrow>
             (let command = TrimSpace input
              in if command = ''exit'' \<or> command = ''quit'' then Some (Break, emit Goodbye w)
                 else if command = [] then Some (Continue, w)
                 else (case ExecuteCommand L client command w of
                         None \<Rightarrow> None
                       | Some ((output, Some err), w1) \<Rightarrow> Some (Continue, emit (CommandFailed err) w1)
                       | Some ((output, None), w1) \<Rightarrow> Some (Continue, emit (Text output) w1))))"

partial_function (option) shell_loop ::
  "'r library \<Rightarrow> Client \<Rightarrow> stdin \<Rightarrow> nat \<Rightarrow> 'r world \<Rightarrow> (error option \<times> 'r world) option" where
  "shell_loop L client stdin n w =
     (case shell_iteration L client (stdin n) w of
        None \<Rightarrow> None
      | Some (Continue, w') \<Rightarrow> shell_loop L client stdin (Suc n) w'
      | Some (Break, w') \<Rightarrow> Some (None, w')
      | Some (Return err, w') \<Rightarrow> Some (err, w'))"

definition ExecuteInteractiveCommand ::
  "'r library \<Rightarrow> stdin \<Rightarrow> Client \<Rightarrow> 'r world \<Rightarrow> (error option \<times> 'r world) option" where
  "ExecuteInteractiveCommand L stdin client w =
     shell_loop L client stdin 0
       (emits [ShellBanner,
                ConnectedTo (Username (GetConfig client)) (Host (GetConfig client)), Rule] w)"

text \<open>
  The reads at which a loop stops, and what the session returns then: nil, except after
  a read error other than the end of the input.
\<close>

definition sftp_stop :: "string \<times> lib_error option \<Rightarrow> bool" where
  "sftp_stop rd =
     (case rd of
        (input, Some err) \<Rightarrow> True
      | (input, None) \<Rightarrow>
          (case Fields (TrimSpace input) of
             [] \<Rightarrow> False
           | command # args \<Rightarrow> command = ''exit'' \<or> command = ''quit''))"

definition shell_stop :: "string \<times> lib_error option \<Rightarrow> bool" where
  "shell_stop rd =
     (case rd of
        (input, Some err) \<Rightarrow> True
      | (input, None) \<Rightarrow> TrimSpace input = ''exit'' \<or> TrimSpace input = ''quit'')"

definition stop_result :: "string \<times> lib_error option \<Rightarrow> error option" where
  "stop_result rd =
     (case snd rd of
        Some err \<Rightarrow> if err = EOF then None else Some (Wrap ReadInputFailed (Lib err))
      | None \<Rightarrow> None)"

section \<open>Concrete environments\<close>

definition env1 :: env where
  "env1 = \<lparr>os_Stat = (\<lambda>p. if p = ''/id_rsa'' \<or> p = ''/locked'' then None else Some NotExist),
           ReadFile = (\<lambda>p. if p = ''/id_rsa'' then Inr ''KEY''
                            else if p = ''/locked'' then Inl (OtherError ''permission denied'')
                            else Inl NotExist),
           ParsePrivateKey = (\<lambda>b. if b = ''KEY'' then Inr (Signer ''k1'') else Inl (OtherError ''no key found'')),
           Dial = (\<lambda>a cc. if a = ''example.com:22'' then Inr 7 else Inl (OtherError ''connection refused''))\<rparr>"

definition cfg_pw :: SSHConfig where
  "cfg_pw = \<lparr>Host = ''example.com'', Port = 22, Username = ''root'', Password = ''secret'', KeyFile = []\<rparr>"

definition cfg_key :: SSHConfig where
  "cfg_key = \<lparr>Host = ''example.com'', Port = 22, Username = ''root'', Password = [], KeyFile = ''/id_rsa''\<rparr>"

definition cfg_pw_locked :: SSHConfig where
  "cfg_pw_locked =
     \<lparr>Host = ''example.com'', Port = 22, Username = ''root'', Password = ''secret'', KeyFile = ''/locked''\<rparr>"

definition cfg_elsewhere :: SSHConfig where
  "cfg_elsewhere = \<lparr>Host = ''10.0.0.1'', Port = 2222, Username = ''root'', Password = ''secret'', KeyFile = []\<rparr>"

definition cfg_nohost :: SSHConfig where
  "cfg_nohost = \<lparr>Host = [], Port = 0, Username = [], Password = [], KeyFile = []\<rparr>"

text \<open>
  A library whose remote side is the list of the paths that exist: \<open>Stat\<close>,
  \<open>ReadDir\<close> and \<open>Getwd\<close> only read it, \<open>Mkdir\<close> and \<open>Remove\<close> change it.
\<close>

definition lib1 :: "string list library" where
  "lib1 =
     \<lparr>NewSession = (\<lambda>r k. (None, r)),
      CombinedOutput = (\<lambda>r cmd. (if cmd = ''false'' then ([], Some (OtherError ''exit status 1''))
                                  else (''ok'', None), r)),
      session_Close = (\<lambda>r. ((), r)),
      sftp_NewClient = (\<lambda>r k. (None, r)),
      sftp_Close = (\<lambda>r. ((), r)),
      ReadDir = (\<lambda>r d. (if d = ''.'' \<or> d \<in> set r then Inr [] else Inl NotExist, r)),
      Getwd = (\<lambda>r. (Inr ''/home/root'', r)),
      Stat = (\<lambda>r p. (if p \<in> set r then None else Some NotExist, r)),
      Mkdir = (\<lambda>r p. if p \<in> set r then (Some (OtherError ''file exists''), r) else (None, p # r)),
      Remove = (\<lambda>r p. if p \<in> set r then (None, removeAll p r) else (Some NotExist, r))\<rparr>"

definition world1 :: "string list world" where
  "world1 = \<lparr>remote = [''/tmp''], calls = [], out = []\<rparr>"

definition client1 :: Client where
  "client1 = \<lparr>config = cfg_pw, conn = Some 7\<rparr>"

text \<open>
  Inputs: the line \<open>quit\<close> and then \<open>rm /nope\<close> for ever; \<open>rm /nope\<close> for ever;
  one blank line and then the end of the input; one blank line and then a failed read.
\<close>

definition stdin_quit :: stdin where
  "stdin_quit n = (if n = 0 then (''quit\<newline>'', None) else (''rm /nope\<newline>'', None))"


definition stdin_eof :: stdin where
  "stdin_eof n = (if n = 0 then ('' \<newline>'', None) else ([], Some EOF))"

definition stdin_broken :: stdin where
  "stdin_broken n =
     (if n = 0 then ('' \<newline>'', None) else ([], Some (OtherError ''input/output error'')))"

section \<open>Properties of the configuration and of the connection\<close>

lemmas cfg_defs = cfg_pw_def cfg_key_def cfg_pw_locked_def cfg_elsewhere_def cfg_nohost_def
lemmas model_defs = Validate_def IsNotExist_def addAuthMethods_def HasKeyAuth_def HasPasswordAuth_def
  NewClient_def GetAddress_def decimal_def

text \<open>
  C1. \<open>Validate\<close> returns an error exactly when one of the five checks holds: the host
  is empty, the user name is empty, the port is not in 1..65535, password and key file
  are both empty, or the key file is named and \<open>os.Stat\<close> reports that it does not
  exist. The error is that of the first check that holds, in this order
  (\<open>spec_Validate\<close>), and the configuration is returned as it was.
\<close>

theorem Validate_first_failing_check:
  "fst (Validate stat c) = c \<and>
   snd (Validate stat c) = spec_Validate stat c \<and>
   (snd (Validate stat c) \<noteq> None \<longleftrightarrow>
      Host c = [] \<or> Username c = [] \<or> Port c \<le> 0 \<or> Port c > 65535 \<or>
      (Password c = [] \<and> KeyFile c = []) \<or>
      (KeyFile c \<noteq> [] \<and> stat (KeyFile c) = Some NotExist))"
  by (simp add: Validate_def spec_Validate_def spec_checks_def IsNotExist_def)

theorem Validate_first_failing_check_witness:
  "fst (Validate (os_Stat env1) cfg_nohost) = cfg_nohost \<and>
   snd (Validate (os_Stat env1) cfg_nohost) = Some HostEmpty \<and>
   snd (Validate (os_Stat env1) cfg_key) = None \<and>
   snd (Validate (os_Stat env1) (cfg_key\<lparr>KeyFile := ''/missing''\<rparr>)) = Some (KeyFileNotExist ''/missing'')"
  using Validate_first_failing_check [of "os_Stat env1" cfg_nohost]
    Validate_first_failing_check [of "os_Stat env1" cfg_key]
    Validate_first_failing_check [of "os_Stat env1" "cfg_key\<lparr>KeyFile := ''/missing''\<rparr>"]
  by (simp add: spec_Validate_def spec_checks_def env1_def cfg_defs)

text \<open>
  C4. When \<open>Validate\<close> fails, \<open>NewClient\<close> returns no client and the validation error
  wrapped, having read no key and dialled nothing. When validation and authentication
  setup succeed and the dial fails, it returns no client and the dial error wrapped.
  It returns a client only when validation, authentication setup and the dial have all
  succeeded; the client then holds the configuration and the connection dialled.
\<close>

theorem NewClient_results:
  "(snd (Validate (os_Stat e) cfg) = Some verr \<longrightarrow>
      NewClient e cfg = ((None, Some (Wrap ConfigValidationFailed verr)), [])) \<and>
   (snd (Validate (os_Stat e) cfg) = None \<and>
    addAuthMethods e \<lparr>User = Username cfg, Auth = [],
        HostKeyCallback = InsecureIgnoreHostKey, Timeout = 30\<rparr> cfg = ((sc, None), t) \<and>
    Dial e (GetAddress cfg) sc = Inl derr \<longrightarrow>
      NewClient e cfg = ((None, Some (Wrap DialFailed (Lib derr))), t @ [CallDial (GetAddress cfg) sc])) \<and>
   (fst (fst (NewClient e cfg)) \<noteq> None \<longrightarrow>
      snd (Validate (os_Stat e) cfg) = None \<and>
      (\<exists>sc' t' k.
         addAuthMethods e \<lparr>User = Username cfg, Auth = [],
           HostKeyCallback = InsecureIgnoreHostKey, Timeout = 30\<rparr> cfg = ((sc', None), t') \<and>
         Dial e (GetAddress cfg) sc' = Inr k \<and>
         NewClient e cfg =
           ((Some \<lparr>config = cfg, conn = Some k\<rparr>, None), t' @ [CallDial (GetAddress cfg) sc'])))"
  by (auto simp: NewClient_def Let_def split: option.splits prod.splits sum.splits)

theorem NewClient_results_witness:
  "snd (Validate (os_Stat env1) cfg_nohost) = Some HostEmpty \<and>
   NewClient env1 cfg_nohost = ((None, Some (Wrap ConfigValidationFailed HostEmpty)), []) \<and>
   Dial env1 (GetAddress cfg_elsewhere) \<lparr>User = ''root'', Auth = [PasswordAuth ''secret''],
        HostKeyCallback = InsecureIgnoreHostKey, Timeout = 30\<rparr> = Inl (OtherError ''connection refused'') \<and>
   fst (NewClient env1 cfg_elsewhere) = (None, Some (Wrap DialFailed (Lib (OtherError ''connection refused'')))) \<and>
   fst (fst (NewClient env1 cfg_pw)) \<noteq> None \<and>
   snd (Validate (os_Stat env1) cfg_pw) = None"
  using NewClient_results [where e = env1 and cfg = cfg_nohost and verr = HostEmpty]
    NewClient_results [where e = env1 and cfg = cfg_elsewhere and t = "[]"
       and sc = "\<lparr>User = ''root'', Auth = [PasswordAuth ''secret''],
          HostKeyCallback = InsecureIgnoreHostKey, Timeout = 30\<rparr>"
       and derr = "OtherError ''connection refused''"]
    NewClient_results [where e = env1 and cfg = cfg_pw]
  by (simp add: model_defs cfg_defs env1_def)

text \<open>
  C5, as stated, at a configuration with a password and a key file that cannot be read:
  the password is not empty, yet \<open>addAuthMethods\<close> returns an error and the client
  configuration still has no authentication method, the password method included.
\<close>

theorem addAuthMethods_password_counterexample:
  "Password cfg_pw_locked \<noteq> [] \<and>
   addAuthMethods env1 \<lparr>User = ''root'', Auth = [],
       HostKeyCallback = InsecureIgnoreHostKey, Timeout = 30\<rparr> cfg_pw_locked =
     ((\<lparr>User = ''root'', Auth = [], HostKeyCallback = InsecureIgnoreHostKey, Timeout = 30\<rparr>,
       Some (Wrap ReadKeyFailed (Lib (OtherError ''permission denied'')))),
      [CallReadFile ''/locked''])"
  by (simp add: model_defs cfg_defs env1_def)

text \<open>
  C5, amended. \<open>addAuthMethods\<close> succeeds exactly when no key file is named or the key
  file reads and parses. When it succeeds, the client configuration has a password
  method if and only if the password is not empty (and it carries that password), and a
  public-key method if and only if a key file is named (and it carries the key parsed
  from that file). When it fails, the client configuration is unchanged. Hence after a
  success on a configuration that \<open>Validate\<close> accepts, the list of methods is not empty.
\<close>

theorem addAuthMethods_on_success:
  "addAuthMethods e sc cfg = ((sc', err), t) \<Longrightarrow>
   (err = None \<longleftrightarrow>
      KeyFile cfg = [] \<or> (\<exists>d sg. ReadFile e (KeyFile cfg) = Inr d \<and> ParsePrivateKey e d = Inr sg)) \<and>
   (err = None \<longrightarrow>
      ((\<exists>p. PasswordAuth p \<in> set (Auth sc')) \<longleftrightarrow> Password cfg \<noteq> []) \<and>
      ((\<exists>sg. PublicKeysAuth sg \<in> set (Auth sc')) \<longleftrightarrow> KeyFile cfg \<noteq> []) \<and>
      (\<forall>p. PasswordAuth p \<in> set (Auth sc') \<longrightarrow> p = Password cfg) \<and>
      (\<forall>sg. PublicKeysAuth sg \<in> set (Auth sc') \<longrightarrow>
         (\<exists>d. ReadFile e (KeyFile cfg) = Inr d \<and> ParsePrivateKey e d = Inr sg))) \<and>
   (err \<noteq> None \<longrightarrow> sc' = sc) \<and>
   (err = None \<and> snd (Validate stat cfg) = None \<longrightarrow> Auth sc' \<noteq> [])"
  by (auto simp: addAuthMethods_def HasKeyAuth_def HasPasswordAuth_def Validate_def Let_def
      split: sum.splits if_splits)

theorem addAuthMethods_on_success_witness:
  "addAuthMethods env1 \<lparr>User = ''root'', Auth = [], HostKeyCallback = InsecureIgnoreHostKey,
       Timeout = 30\<rparr> (cfg_key\<lparr>Password := ''secret''\<rparr>) =
     ((\<lparr>User = ''root'', Auth = [PasswordAuth ''secret'', PublicKeysAuth (Signer ''k1'')],
        HostKeyCallback = InsecureIgnoreHostKey, Timeout = 30\<rparr>, None),
      [CallReadFile ''/id_rsa'', CallParsePrivateKey ''KEY'']) \<and>
   snd (Validate (os_Stat env1) (cfg_key\<lparr>Password := ''secret''\<rparr>)) = None \<and>
   Auth \<lparr>User = ''root'', Auth = [PasswordAuth ''secret'', PublicKeysAuth (Signer ''k1'')],
        HostKeyCallback = InsecureIgnoreHostKey, Timeout = 30\<rparr> \<noteq> []"
proof -
  have run: "addAuthMethods env1 \<lparr>User = ''root'', Auth = [], HostKeyCallback = InsecureIgnoreHostKey,
       Timeout = 30\<rparr> (cfg_key\<lparr>Password := ''secret''\<rparr>) =
     ((\<lparr>User = ''root'', Auth = [PasswordAuth ''secret'', PublicKeysAuth (Signer ''k1'')],
        HostKeyCallback = InsecureIgnoreHostKey, Timeout = 30\<rparr>, None),
      [CallReadFile ''/id_rsa'', CallParsePrivateKey ''KEY''])"
    by (simp add: model_defs cfg_defs env1_def)
  have ok: "snd (Validate (os_Stat env1) (cfg_key\<lparr>Password := ''secret''\<rparr>)) = None"
    by (simp add: model_defs cfg_defs env1_def)
  from addAuthMethods_on_success [OF run, where stat = "os_Stat env1"] run ok show ?thesis by simp
qed

text \<open>
  C10. On a client whose connection is nil, \<open>Close\<close> returns nil and makes no call on
  the connection. \<open>Close\<close> returns an error only when the client has a connection and
  that connection's own \<open>Close\<close> returned this error.
\<close>

theorem Close_nil_connection:
  "(conn c = None \<longrightarrow> Close conn_Close c = (None, [])) \<and>
   (fst (Close conn_Close c) \<noteq> None \<longrightarrow>
      (\<exists>k err. conn c = Some k \<and> conn_Close k = Some err \<and>
         Close conn_Close c = (Some (Lib err), [CallConnClose k])))"
  by (auto simp: Close_def split: option.splits)

theorem Close_nil_connection_witness:
  "conn \<lparr>config = cfg_pw, conn = None\<rparr> = None \<and>
   Close (\<lambda>k. Some EOF) \<lparr>config = cfg_pw, conn = None\<rparr> = (None, []) \<and>
   fst (Close (\<lambda>k. Some EOF) \<lparr>config = cfg_pw, conn = Some 7\<rparr>) \<noteq> None \<and>
   Close (\<lambda>k. Some EOF) \<lparr>config = cfg_pw, conn = Some 7\<rparr> = (Some (Lib EOF), [CallConnClose 7])"
  using Close_nil_connection [where c = "\<lparr>config = cfg_pw, conn = None\<rparr>" and conn_Close = "\<lambda>k. Some EOF"]
    Close_nil_connection [where c = "\<lparr>config = cfg_pw, conn = Some 7\<rparr>" and conn_Close = "\<lambda>k. Some EOF"]
  by (simp add: Close_def)

section \<open>Evaluating the string functions\<close>










lemmas world_defs = emit_def emits_def lib_call_def

section \<open>Properties of the SFTP commands\<close>

text \<open>
  C2, as stated, at the command \<open>quit\<close>: it is not one of the nine names of the
  specification, yet the dispatcher returns no error for it and prints the farewell.
\<close>

theorem executeSFTPCommand_quit_counterexample:
  "map_of (spec_commands lib1) ''quit'' = None \<and>
   executeSFTPCommand lib1 ''quit'' [] world1 =
     (None, \<lparr>remote = [''/tmp''], calls = [], out = [Goodbye]\<rparr>)"
  by (simp add: spec_commands_def executeSFTPCommand_def world1_def emit_def)

text \<open>
  C2, amended. \<open>executeSFTPCommand\<close> recognises exactly eleven names: the nine of the
  specification and the aliases \<open>dir\<close> (for \<open>ls\<close>) and \<open>quit\<close> (for \<open>exit\<close>). On each
  it runs the operation of the table; on every other command it returns the
  unknown-command error and leaves the session as it was.
\<close>

theorem executeSFTPCommand_table:
  "executeSFTPCommand client command args w =
     (case map_of (spec_commands client @ alias_commands client) command of
        Some operation \<Rightarrow> operation args w
      | None \<Rightarrow> (Some (UnknownCommand command), w)) \<and>
   map fst (spec_commands client @ alias_commands client) =
     [''ls'', ''cd'', ''get'', ''put'', ''mkdir'', ''rm'', ''pwd'', ''help'', ''exit'', ''dir'', ''quit'']"
  by (simp add: executeSFTPCommand_def spec_commands_def alias_commands_def)

theorem executeSFTPCommand_table_witness:
  "executeSFTPCommand lib1 ''dir'' [''/tmp''] world1 = listRemoteDirectory lib1 [''/tmp''] world1 \<and>
   executeSFTPCommand lib1 ''mkdir'' [''/a''] world1 =
     (None, \<lparr>remote = [''/a'', ''/tmp''], calls = [CallMkdir ''/a''], out = [DirCreated ''/a'']\<rparr>) \<and>
   executeSFTPCommand lib1 ''chmod'' [''/a''] world1 = (Some (UnknownCommand ''chmod''), world1)"
  using executeSFTPCommand_table [of lib1 "''dir''" "[''/tmp'']" world1]
    executeSFTPCommand_table [of lib1 "''mkdir''" "[''/a'']" world1]
    executeSFTPCommand_table [of lib1 "''chmod''" "[''/a'']" world1]
  by (simp add: spec_commands_def alias_commands_def createRemoteDirectory_def lib1_def world1_def
      world_defs)

lemma lib_call_calls: "calls (snd (lib_call c f w)) = calls w @ [c]"
  by (simp add: lib_call_def split: prod.splits)





text \<open>
  C8. Without an argument \<open>cd\<close> returns an error and touches nothing. With an argument
  its only library call is one \<open>Stat\<close> of that argument: it returns the wrapped error
  when \<open>Stat\<close> fails and prints the two notices otherwise. Hence, for a library whose
  \<open>Stat\<close> leaves the remote side as it was, the remote side after \<open>cd\<close> is the one
  before, and \<open>pwd\<close> reports after the \<open>cd\<close> what it reports before.
\<close>

theorem cd_changes_nothing:
  "changeRemoteDirectory client [] w = (Some CdNeedsDirectory, w) \<and>
   changeRemoteDirectory client (a # others) w =
     (case Stat client (remote w) a of
        (Some err, r) \<Rightarrow>
          (Some (Wrap StatFailed (Lib err)), w\<lparr>remote := r, calls := calls w @ [CallStat a]\<rparr>)
      | (None, r) \<Rightarrow>
          (None, w\<lparr>remote := r, calls := calls w @ [CallStat a],
                    out := out w @ [CdNotSupported, DirAccessible a]\<rparr>)) \<and>
   ((\<forall>r p. snd (Stat client r p) = r) \<longrightarrow>
      remote (snd (changeRemoteDirectory client args w)) = remote w \<and>
      fst (Getwd client (remote (snd (changeRemoteDirectory client args w)))) =
        fst (Getwd client (remote w)) \<and>
      fst (showRemotePwd client (snd (changeRemoteDirectory client args w))) =
        fst (showRemotePwd client w))"
proof (intro conjI impI)
  show "changeRemoteDirectory client [] w = (Some CdNeedsDirectory, w)"
    by (simp add: changeRemoteDirectory_def)
  show "changeRemoteDirectory client (a # others) w =
     (case Stat client (remote w) a of
        (Some err, r) \<Rightarrow>
          (Some (Wrap StatFailed (Lib err)), w\<lparr>remote := r, calls := calls w @ [CallStat a]\<rparr>)
      | (None, r) \<Rightarrow>
          (None, w\<lparr>remote := r, calls := calls w @ [CallStat a],
                    out := out w @ [CdNotSupported, DirAccessible a]\<rparr>))"
    by (simp add: changeRemoteDirectory_def world_defs split: prod.splits option.splits)
  assume q: "\<forall>r p. snd (Stat client r p) = r"
  show same: "remote (snd (changeRemoteDirectory client args w)) = remote w"
  proof (cases args)
    case Nil
    then show ?thesis by (simp add: changeRemoteDirectory_def)
  next
    case (Cons b bs)
    from q have "snd (Stat client (remote w) b) = remote w" by blast
    with Cons show ?thesis
      by (auto simp: changeRemoteDirectory_def world_defs split: prod.splits option.splits)
  qed
  then show "fst (Getwd client (remote (snd (changeRemoteDirectory client args w)))) =
        fst (Getwd client (remote w))"
    by simp
  from same show "fst (showRemotePwd client (snd (changeRemoteDirectory client args w))) =
        fst (showRemotePwd client w)"
    by (simp add: showRemotePwd_def world_defs split: prod.splits sum.splits)
qed

theorem cd_changes_nothing_witness:
  "(\<forall>r p. snd (Stat lib1 r p) = r) \<and>
   changeRemoteDirectory lib1 [''/tmp''] world1 =
     (None, \<lparr>remote = [''/tmp''], calls = [CallStat ''/tmp''],
              out = [CdNotSupported, DirAccessible ''/tmp'']\<rparr>) \<and>
   fst (showRemotePwd lib1 (snd (changeRemoteDirectory lib1 [''/tmp''] world1))) =
     fst (showRemotePwd lib1 world1) \<and>
   fst (Getwd lib1 (remote (snd (changeRemoteDirectory lib1 [''/tmp''] world1)))) = Inr ''/home/root''"
proof -
  have q: "\<forall>r p. snd (Stat lib1 r p) = r" by (simp add: lib1_def)
  from cd_changes_nothing [where client = lib1 and args = "[''/tmp'']" and w = world1
      and a = "''/tmp''" and others = "[]"] q
  show ?thesis by (simp add: lib1_def world1_def changeRemoteDirectory_def showRemotePwd_def world_defs)
qed

text \<open>
  C9. The dispatcher runs \<open>put\<close> and \<open>get\<close> through \<open>uploadFileCommand\<close> and
  \<open>downloadFileCommand\<close>. Both return an error on every argument list: the
  missing-argument error on the empty list, the error that the full client object is
  needed on every other list. Neither makes a library call or changes the remote side.
\<close>

theorem get_put_transfer_nothing:
  "executeSFTPCommand client ''put'' args w = uploadFileCommand client args w \<and>
   executeSFTPCommand client ''get'' args w = downloadFileCommand client args w \<and>
   uploadFileCommand client [] w = (Some PutNeedsFile, w) \<and>
   downloadFileCommand client [] w = (Some GetNeedsFile, w) \<and>
   (args \<noteq> [] \<longrightarrow>
      fst (uploadFileCommand client args w) = Some PutNeedsFullClient \<and>
      fst (downloadFileCommand client args w) = Some GetNeedsFullClient) \<and>
   remote (snd (uploadFileCommand client args w)) = remote w \<and>
   calls (snd (uploadFileCommand client args w)) = calls w \<and>
   remote (snd (downloadFileCommand client args w)) = remote w \<and>
   calls (snd (downloadFileCommand client args w)) = calls w"
  by (auto simp: executeSFTPCommand_def uploadFileCommand_def downloadFileCommand_def emit_def
      Let_def split: list.splits)

theorem get_put_transfer_nothing_witness:
  "[''a.txt''] \<noteq> ([] :: string list) \<and>
   executeSFTPCommand lib1 ''put'' [''a.txt''] world1 =
     (Some PutNeedsFullClient,
      \<lparr>remote = [''/tmp''], calls = [], out = [Uploading ''a.txt'' ''a.txt'']\<rparr>) \<and>
   executeSFTPCommand lib1 ''get'' [''/srv/a.txt'', ''b.txt''] world1 =
     (Some GetNeedsFullClient,
      \<lparr>remote = [''/tmp''], calls = [], out = [Downloading ''/srv/a.txt'' ''b.txt'']\<rparr>) \<and>
   executeSFTPCommand lib1 ''get'' [] world1 = (Some GetNeedsFile, world1)"
  using get_put_transfer_nothing [of lib1 "[''a.txt'']" world1]
    get_put_transfer_nothing [of lib1 "[''/srv/a.txt'', ''b.txt'']" world1]
    get_put_transfer_nothing [of lib1 "[]" world1]
  by (simp add: uploadFileCommand_def downloadFileCommand_def Base_def world1_def emit_def)

end
